theory Spec2Isabelle
  imports Main "HOL-Library.Sublist" "HOL-Library.Multiset"
begin

section \<open>Values shared by the handlers\<close>

text \<open>
  An ObjectId is an abstract identifier. Where the source turns one into its string form
  (\<^verbatim>\<open>user.id\<close>, \<^verbatim>\<open>task.id\<close>) and back (the driver casts the string of a query to
  an ObjectId), the model keeps the identifier itself. A date is a number of milliseconds.
\<close>

type_synonym oid = nat
type_synonym date = nat

datatype json =
    JNull
  | JBool bool
  | JStr string
  | JOid oid
  | JDate date
  | JArr "json list"
  | JObj "(string \<times> json) list"

text \<open>\<^verbatim>\<open>{ message: m }\<close>, the body of every failure response but the validation one.\<close>

definition message :: "string \<Rightarrow> json" where
  "message m = JObj [(''message'', JStr m)]"

text \<open>
  What an async route handler ends with: a response it writes (status and JSON body), or
  a rejected promise, on which the handler itself writes nothing.
\<close>

datatype failure = CastError | ValidationError | DuplicateKey | RegexError | JwtError

datatype outcome = Response nat json | Rejected failure

text \<open>\<^verbatim>\<open>process.env\<close>: the variables the sources read.\<close>

record process_env =
  JWT_SECRET :: "string option"
  MONGODB_URI :: "string option"
  MONGODB_DB_NAME :: "string option"
  PORT :: "string option"

text \<open>\<^verbatim>\<open>x || d\<close> on an optional string: an undefined and an empty string both give \<open>d\<close>.\<close>

definition or_else :: "string option \<Rightarrow> string \<Rightarrow> string" where
  "or_else x d = (case x of None \<Rightarrow> d | Some s \<Rightarrow> if s = [] then d else s)"

text \<open>
  What a request reads from its surroundings: \<^verbatim>\<open>Date.now()\<close>, the ObjectId the driver
  generates for a new document, the randomness \<^verbatim>\<open>bcrypt.genSalt\<close> draws, and the clock
  of \<^verbatim>\<open>jsonwebtoken\<close>, which counts whole seconds.
\<close>

record world =
  now :: date
  fresh_oid :: oid
  entropy :: nat
  clock :: nat

section \<open>The libraries, as parameters\<close>

text \<open>
  \<^verbatim>\<open>jsonwebtoken\<close>: \<open>jwt_sign J u secret expiresIn c\<close> is
  \<^verbatim>\<open>jwt.sign({ id: u }, secret, { expiresIn })\<close> at clock \<open>c\<close>, \<open>None\<close> when it throws;
  \<open>jwt_verify J token secret c\<close> is \<^verbatim>\<open>jwt.verify(token, secret)\<close> at clock \<open>c\<close>,
  \<open>None\<close> when it throws.
\<close>

record payload =
  pid :: oid
  iat :: nat
  exp :: nat

record jwt_lib =
  jwt_sign :: "oid \<Rightarrow> string \<Rightarrow> string \<Rightarrow> nat \<Rightarrow> string option"
  jwt_verify :: "string \<Rightarrow> string \<Rightarrow> nat \<Rightarrow> payload option"

text \<open>
  \<^verbatim>\<open>bcrypt\<close>: \<open>genSalt B rounds r\<close> is the salt \<^verbatim>\<open>bcrypt.genSalt(rounds)\<close> draws from
  the randomness \<open>r\<close>, \<open>hash B p salt\<close> is \<^verbatim>\<open>bcrypt.hash(p, salt)\<close> and
  \<open>compare B candidate h\<close> is \<^verbatim>\<open>bcrypt.compare(candidate, h)\<close>.
\<close>

record bcrypt_lib =
  genSalt :: "nat \<Rightarrow> nat \<Rightarrow> string"
  hash :: "string \<Rightarrow> string \<Rightarrow> string"
  compare :: "string \<Rightarrow> string \<Rightarrow> bool"

section \<open>Auth Gate (middleware/auth)\<close>

datatype auth_result = Reply nat json | Next oid

definition bearer_token :: "string option \<Rightarrow> string" where
  "bearer_token authorization =
     (let header = or_else authorization '''' in
      if take 7 header = ''Bearer '' then drop 7 header else '''')"

definition auth :: "jwt_lib \<Rightarrow> process_env \<Rightarrow> nat \<Rightarrow> string option \<Rightarrow> auth_result" where
  "auth J env c authorization =
     (let token = bearer_token authorization in
      if token = [] then Reply 401 (message ''Unauthorized'')
      else
        let secret = or_else (JWT_SECRET env) '''' in
        if secret = [] then Reply 500 (message ''Server config error'')
        else
          (case jwt_verify J token secret c of
             None \<Rightarrow> Reply 401 (message ''Unauthorized'')
           | Some p \<Rightarrow> Next (pid p)))"

section \<open>Strings\<close>

text \<open>
  A string is a list of characters, and a character is one of the 256 code units 0 to 255
  (Latin-1); text with other characters is not represented. On these characters,
  JavaScript's \<^verbatim>\<open>toLowerCase\<close> moves the letters A to Z (codes 65 to 90) and the
  accented capitals (codes 192 to 222 but for the multiplication sign, 215) 32 places up,
  and this is also the case folding of the store's regular expressions. \<^verbatim>\<open>trim\<close>
  strips tab, line feed, vertical tab, form feed, carriage return, space and the
  no-break space (160) from both ends.
\<close>

definition lower :: "char \<Rightarrow> char" where
  "lower c =
     (let n = (of_char c :: nat) in
      if (65 \<le> n \<and> n \<le> 90) \<or> (192 \<le> n \<and> n \<le> 222 \<and> n \<noteq> 215) then char_of (n + 32)
      else c)"

definition toLowerCase :: "string \<Rightarrow> string" where
  "toLowerCase s = map lower s"

definition is_space :: "char \<Rightarrow> bool" where
  "is_space c = ((of_char c :: nat) \<in> {9, 10, 11, 12, 13, 32, 160})"

definition trim :: "string \<Rightarrow> string" where
  "trim s = rev (dropWhile is_space (rev (dropWhile is_space s)))"

text \<open>The truthiness test \<^verbatim>\<open>if (x)\<close> on an optional string.\<close>

definition truthy :: "string option \<Rightarrow> bool" where
  "truthy x = (case x of None \<Rightarrow> False | Some s \<Rightarrow> s \<noteq> [])"

section \<open>The document store\<close>

text \<open>
  The two collections, in insertion order. The schema options of the models (\<^verbatim>\<open>trim\<close>,
  \<^verbatim>\<open>lowercase\<close>, \<^verbatim>\<open>default\<close>, \<^verbatim>\<open>required\<close>, \<^verbatim>\<open>minlength\<close>, \<^verbatim>\<open>enum\<close>,
  \<^verbatim>\<open>unique\<close>, \<^verbatim>\<open>timestamps\<close>) are written out in the operations below.
\<close>

record user =
  user_id :: oid
  username :: string
  email :: string
  password :: string
  user_createdAt :: date

record task =
  task_id :: oid
  title :: string
  description :: string
  status :: string
  priority :: string
  userId :: oid
  createdAt :: date
  updatedAt :: date

record db =
  users :: "user list"
  tasks :: "task list"

text \<open>\<^verbatim>\<open>findOneAndUpdate\<close> and \<^verbatim>\<open>findOneAndDelete\<close> touch the first document that matches.\<close>

fun update_first :: "('a \<Rightarrow> bool) \<Rightarrow> ('a \<Rightarrow> 'a) \<Rightarrow> 'a list \<Rightarrow> 'a list" where
  "update_first P f [] = []"
| "update_first P f (x # xs) = (if P x then f x # xs else x # update_first P f xs)"

fun remove_first :: "('a \<Rightarrow> bool) \<Rightarrow> 'a list \<Rightarrow> 'a list" where
  "remove_first P [] = []"
| "remove_first P (x # xs) = (if P x then xs else x # remove_first P xs)"

section \<open>Credential Store (models/User, routes/auth)\<close>

text \<open>
  The \<^verbatim>\<open>pre('save')\<close> hook: \<open>modified\<close> are the modified paths of the document, so
  \<^verbatim>\<open>user.isModified('password')\<close> is \<open>''password'' \<in> set modified\<close>.
\<close>

definition pre_save :: "bcrypt_lib \<Rightarrow> nat \<Rightarrow> string list \<Rightarrow> user \<Rightarrow> user" where
  "pre_save B r modified u =
     (if ''password'' \<notin> set modified then u
      else
        let salt = genSalt B 10 r;
            h = hash B (password u) salt
        in u\<lparr>password := h\<rparr>)"

definition comparePassword :: "bcrypt_lib \<Rightarrow> user \<Rightarrow> string \<Rightarrow> bool" where
  "comparePassword B u candidate = compare B candidate (password u)"

text \<open>
  \<^verbatim>\<open>User.findOne({ $or: [{ email }, { username }] })\<close> and \<^verbatim>\<open>User.findOne({ email })\<close>:
  the query is cast through the schema, which trims both fields and lowercases the email.
\<close>

definition User_findOne_or :: "db \<Rightarrow> string \<Rightarrow> string \<Rightarrow> user option" where
  "User_findOne_or d em un =
     find (\<lambda>x. email x = toLowerCase (trim em) \<or> username x = trim un) (users d)"

definition User_findOne_email :: "db \<Rightarrow> string \<Rightarrow> user option" where
  "User_findOne_email d em = find (\<lambda>x. email x = toLowerCase (trim em)) (users d)"

text \<open>
  \<^verbatim>\<open>User.create({ username, email, password })\<close>: the setters and the default of the
  schema, its validators on the plaintext document, the save hook with the three paths
  modified, and the insert, which the unique indexes on \<^verbatim>\<open>_id\<close>, \<^verbatim>\<open>username\<close> and
  \<^verbatim>\<open>email\<close> can refuse.
\<close>

definition User_create ::
  "bcrypt_lib \<Rightarrow> world \<Rightarrow> db \<Rightarrow> string \<Rightarrow> string \<Rightarrow> string \<Rightarrow> failure + user \<times> db" where
  "User_create B w d un em pw =
     (let doc = \<lparr>user_id = fresh_oid w, username = trim un, email = toLowerCase (trim em),
                 password = pw, user_createdAt = now w\<rparr>
      in
        if length (username doc) < 3 \<or> email doc = [] \<or> length pw < 6 then Inl ValidationError
        else
          let saved = pre_save B (entropy w) [''username'', ''email'', ''password''] doc in
          if \<exists>x \<in> set (users d).
               user_id x = user_id saved \<or> username x = username saved \<or> email x = email saved
          then Inl DuplicateKey
          else Inr (saved, d\<lparr>users := users d @ [saved]\<rparr>))"

definition public_user :: "user \<Rightarrow> json" where
  "public_user u =
     JObj [(''id'', JOid (user_id u)), (''username'', JStr (username u)),
           (''email'', JStr (email u)), (''createdAt'', JDate (user_createdAt u))]"

text \<open>
  The validators of \<^verbatim>\<open>utils/validators\<close> run before a handler: they sanitise the
  fields of the request and collect the errors. A handler is modelled from the point
  where it starts: it takes the fields as it reads them and \<open>errors\<close>, the array
  \<^verbatim>\<open>validationResult(req).array()\<close>. The validator of the task query, and the route
  that runs it before the handler, are modelled with the Task Repository.
\<close>

definition post_register ::
  "bcrypt_lib \<Rightarrow> world \<Rightarrow> db \<Rightarrow> json list \<Rightarrow> string \<Rightarrow> string \<Rightarrow> string \<Rightarrow> outcome \<times> db" where
  "post_register B w d errors un em pw =
     (if errors \<noteq> [] then (Response 400 (JObj [(''errors'', JArr errors)]), d)
      else
        (case User_findOne_or d em un of
           Some ex \<Rightarrow> (Response 409 (message ''User already exists''), d)
         | None \<Rightarrow>
             (case User_create B w d un em pw of
                Inl e \<Rightarrow> (Rejected e, d)
              | Inr (u, d') \<Rightarrow> (Response 201 (public_user u), d'))))"

text \<open>Token Service, issue: \<^verbatim>\<open>jwt.sign({ id }, process.env.JWT_SECRET || '', { expiresIn: '24h' })\<close>.\<close>

definition issue :: "jwt_lib \<Rightarrow> process_env \<Rightarrow> nat \<Rightarrow> oid \<Rightarrow> string option" where
  "issue J env c u = jwt_sign J u (or_else (JWT_SECRET env) '''') ''24h'' c"

definition post_login ::
  "bcrypt_lib \<Rightarrow> jwt_lib \<Rightarrow> process_env \<Rightarrow> world \<Rightarrow> db \<Rightarrow> json list \<Rightarrow> string \<Rightarrow> string \<Rightarrow> outcome" where
  "post_login B J env w d errors em pw =
     (if errors \<noteq> [] then Response 400 (JObj [(''errors'', JArr errors)])
      else
        (case User_findOne_email d em of
           None \<Rightarrow> Response 401 (message ''Invalid credentials'')
         | Some u \<Rightarrow>
             if \<not> comparePassword B u pw then Response 401 (message ''Invalid credentials'')
             else
               (case issue J env (clock w) (user_id u) of
                  None \<Rightarrow> Rejected JwtError
                | Some token \<Rightarrow>
                    Response 200
                      (JObj [(''token'', JStr token),
                             (''user'', JObj [(''id'', JOid (user_id u)),
                                              (''username'', JStr (username u)),
                                              (''email'', JStr (email u))])]))))"

text \<open>
  \<^verbatim>\<open>PUT /profile\<close>: \<^verbatim>\<open>User.findByIdAndUpdate(id, updates, { new: true })\<close> casts the
  update through the schema, runs no validator and no save hook, and fails on a value
  that another user holds under a unique index.
\<close>

definition profile_updates :: "string option \<Rightarrow> string option \<Rightarrow> user \<Rightarrow> user" where
  "profile_updates un em u =
     (let u1 = (if truthy un then u\<lparr>username := trim (or_else un '''')\<rparr> else u)
      in if truthy em then u1\<lparr>email := toLowerCase (trim (or_else em ''''))\<rparr> else u1)"

definition put_profile ::
  "db \<Rightarrow> oid \<Rightarrow> json list \<Rightarrow> string option \<Rightarrow> string option \<Rightarrow> outcome \<times> db" where
  "put_profile d uid errors un em =
     (if errors \<noteq> [] then (Response 400 (JObj [(''errors'', JArr errors)]), d)
      else
        (case find (\<lambda>x. user_id x = uid) (users d) of
           None \<Rightarrow> (Response 404 (message ''User not found''), d)
         | Some u \<Rightarrow>
             let u' = profile_updates un em u in
             if \<exists>x \<in> set (users d).
                  user_id x \<noteq> uid \<and> (username x = username u' \<or> email x = email u')
             then (Rejected DuplicateKey, d)
             else (Response 200 (public_user u'),
                   d\<lparr>users := update_first (\<lambda>x. user_id x = uid) (\<lambda>x. u') (users d)\<rparr>)))"

section \<open>Task Repository (models/Task, routes/tasks)\<close>

definition task_json :: "task \<Rightarrow> json" where
  "task_json t =
     JObj [(''id'', JOid (task_id t)), (''title'', JStr (title t)),
           (''description'', JStr (description t)), (''status'', JStr (status t)),
           (''priority'', JStr (priority t)), (''createdAt'', JDate (createdAt t)),
           (''updatedAt'', JDate (updatedAt t))]"

subsection \<open>The regular expression of the title search\<close>

text \<open>
  \<^verbatim>\<open>{ title: { $regex: q, $options: 'i' } }\<close> hands \<open>q\<close> to the store's regular
  expression engine as a pattern. The model computes the patterns made of ordinary
  characters and the dot: an ordinary character matches itself up to case (\<open>lower\<close>),
  a dot matches any character but the line feed, and the pattern may match anywhere in
  the subject. Every other pattern goes to the parameter \<open>E\<close>, the
  rest of the engine, which compiles a pattern to a matcher or refuses it.
\<close>

definition regex_meta :: "char list" where
  "regex_meta = [CHR 0x00, CHR 0x5C, CHR ''^'', CHR ''$'', CHR ''.'', CHR ''|'', CHR ''?'',
                 CHR ''*'', CHR ''+'', CHR ''('', CHR '')'', CHR ''['', CHR '']'', CHR ''{'',
                 CHR ''}'']"

definition literal_pattern :: "string \<Rightarrow> bool" where
  "literal_pattern p = list_all (\<lambda>c. c \<notin> set regex_meta) p"

definition simple_pattern :: "string \<Rightarrow> bool" where
  "simple_pattern p = list_all (\<lambda>c. c = CHR ''.'' \<or> c \<notin> set regex_meta) p"

fun match_here :: "string \<Rightarrow> string \<Rightarrow> bool" where
  "match_here [] s = True"
| "match_here (p # ps) [] = False"
| "match_here (p # ps) (c # cs) =
     ((if p = CHR ''.'' then c \<noteq> CHR 0x0A else lower p = lower c) \<and> match_here ps cs)"

fun regex_search :: "string \<Rightarrow> string \<Rightarrow> bool" where
  "regex_search p [] = match_here p []"
| "regex_search p (c # cs) = (match_here p (c # cs) \<or> regex_search p cs)"

definition regex_i :: "(string \<Rightarrow> (string \<Rightarrow> bool) option) \<Rightarrow> string \<Rightarrow> (string \<Rightarrow> bool) option" where
  "regex_i E p = (if simple_pattern p then Some (regex_search p) else E p)"

subsection \<open>The handlers\<close>

text \<open>
  \<^verbatim>\<open>Task.find(filter).sort({ createdAt: -1 })\<close>, the filter holding the owner and, when
  truthy, the status and the priority.
\<close>

definition Task_find :: "db \<Rightarrow> oid \<Rightarrow> string option \<Rightarrow> string option \<Rightarrow> task list" where
  "Task_find d uid st pr =
     sort_key (\<lambda>t. - int (createdAt t))
       (filter (\<lambda>t. userId t = uid
                  \<and> (if truthy st then status t = or_else st '''' else True)
                  \<and> (if truthy pr then priority t = or_else pr '''' else True))
          (tasks d))"

definition get_tasks ::
  "(string \<Rightarrow> (string \<Rightarrow> bool) option) \<Rightarrow> db \<Rightarrow> oid \<Rightarrow> json list
     \<Rightarrow> string option \<Rightarrow> string option \<Rightarrow> string option \<Rightarrow> outcome" where
  "get_tasks E d uid errors q st pr =
     (if errors \<noteq> [] then Response 400 (JObj [(''errors'', JArr errors)])
      else
        let found = Task_find d uid st pr in
        if truthy q then
          (case regex_i E (or_else q '''') of
             None \<Rightarrow> Rejected RegexError
           | Some m \<Rightarrow> Response 200 (JArr (map task_json (filter (\<lambda>t. m (title t)) found))))
        else Response 200 (JArr (map task_json found)))"

text \<open>
  \<^verbatim>\<open>const sanitize = (value) => xss(value)\<close>. The filter escapes and strips markup,
  which starts at an angle bracket: text with neither \<^verbatim>\<open><\<close> nor \<^verbatim>\<open>>\<close> is returned as
  it is, and every other text goes to the parameter \<open>X\<close>, the rest of the filter.
\<close>

definition sanitize :: "(string \<Rightarrow> string) \<Rightarrow> string \<Rightarrow> string" where
  "sanitize X v = (if CHR ''<'' \<notin> set v \<and> CHR ''>'' \<notin> set v then v else X v)"

text \<open>
  \<^verbatim>\<open>taskQueryValidator\<close>: \<^verbatim>\<open>q\<close>, when defined, is trimmed and then sanitised (it is a
  string by its type here, so \<^verbatim>\<open>isString\<close> holds); \<^verbatim>\<open>status\<close> and \<^verbatim>\<open>priority\<close>, when
  defined, must be one of the listed values. The result is the array of errors, an entry
  cut down to the name of its field, and the \<^verbatim>\<open>q\<close> that the handler will read.
\<close>

definition field_error :: "string \<Rightarrow> json" where
  "field_error f = JObj [(''path'', JStr f)]"

definition taskQueryValidator ::
  "(string \<Rightarrow> string) \<Rightarrow> string option \<Rightarrow> string option \<Rightarrow> string option
     \<Rightarrow> json list \<times> string option" where
  "taskQueryValidator X q st pr =
     ((case st of
         None \<Rightarrow> []
       | Some s \<Rightarrow> if s \<in> {''todo'', ''in-progress'', ''completed''} then []
                  else [field_error ''status''])
      @ (case pr of
           None \<Rightarrow> []
         | Some s \<Rightarrow> if s \<in> {''low'', ''medium'', ''high''} then []
                    else [field_error ''priority'']),
      (case q of None \<Rightarrow> None | Some v \<Rightarrow> Some (sanitize X (trim v))))"

text \<open>
  \<^verbatim>\<open>router.get('/', auth, taskQueryValidator, handler)\<close>, from the point where \<^verbatim>\<open>auth\<close>
  has set the principal: the validator, then the handler on what the validator left.
\<close>

definition get_tasks_route ::
  "(string \<Rightarrow> string) \<Rightarrow> (string \<Rightarrow> (string \<Rightarrow> bool) option) \<Rightarrow> db \<Rightarrow> oid
     \<Rightarrow> string option \<Rightarrow> string option \<Rightarrow> string option \<Rightarrow> outcome" where
  "get_tasks_route X E d uid q st pr =
     (case taskQueryValidator X q st pr of
        (errors, q') \<Rightarrow> get_tasks E d uid errors q' st pr)"

text \<open>
  \<^verbatim>\<open>Task.create({ title, description, status, priority, userId })\<close>: the setter and the
  defaults of the schema, the timestamps, the validators, and the insert.
\<close>

definition Task_create ::
  "world \<Rightarrow> db \<Rightarrow> string \<Rightarrow> string option \<Rightarrow> string option \<Rightarrow> string option \<Rightarrow> oid
     \<Rightarrow> failure + task \<times> db" where
  "Task_create w d ttl desc st pr uid =
     (let doc = \<lparr>task_id = fresh_oid w, title = trim ttl,
                 description = (case desc of None \<Rightarrow> '''' | Some s \<Rightarrow> s),
                 status = (case st of None \<Rightarrow> ''todo'' | Some s \<Rightarrow> s),
                 priority = (case pr of None \<Rightarrow> ''medium'' | Some s \<Rightarrow> s),
                 userId = uid, createdAt = now w, updatedAt = now w\<rparr>
      in
        if title doc = []
           \<or> status doc \<notin> {''todo'', ''in-progress'', ''completed''}
           \<or> priority doc \<notin> {''low'', ''medium'', ''high''}
        then Inl ValidationError
        else if \<exists>x \<in> set (tasks d). task_id x = task_id doc then Inl DuplicateKey
        else Inr (doc, d\<lparr>tasks := tasks d @ [doc]\<rparr>))"

definition post_tasks ::
  "world \<Rightarrow> db \<Rightarrow> oid \<Rightarrow> json list \<Rightarrow> string \<Rightarrow> string option \<Rightarrow> string option \<Rightarrow> string option
     \<Rightarrow> outcome \<times> db" where
  "post_tasks w d uid errors ttl desc st pr =
     (if errors \<noteq> [] then (Response 400 (JObj [(''errors'', JArr errors)]), d)
      else
        (case Task_create w d ttl desc st pr uid of
           Inl e \<Rightarrow> (Rejected e, d)
         | Inr (t, d') \<Rightarrow> (Response 201 (task_json t), d')))"

text \<open>
  The update document of \<^verbatim>\<open>PUT /:id\<close>: a field is \<open>Some\<close> when the body defines it.
  \<^verbatim>\<open>findOneAndUpdate\<close> casts it through the schema (the title is trimmed), runs no
  validator, and \<^verbatim>\<open>timestamps: true\<close> adds the last-modified time to every update.
\<close>

record updates =
  upd_title :: "string option"
  upd_description :: "string option"
  upd_status :: "string option"
  upd_priority :: "string option"

definition apply_updates :: "date \<Rightarrow> updates \<Rightarrow> task \<Rightarrow> task" where
  "apply_updates n u t =
     t\<lparr>title := (case upd_title u of None \<Rightarrow> title t | Some s \<Rightarrow> trim s),
       description := (case upd_description u of None \<Rightarrow> description t | Some s \<Rightarrow> s),
       status := (case upd_status u of None \<Rightarrow> status t | Some s \<Rightarrow> s),
       priority := (case upd_priority u of None \<Rightarrow> priority t | Some s \<Rightarrow> s),
       updatedAt := n\<rparr>"

text \<open>
  The path parameter \<^verbatim>\<open>:id\<close> is a string that the query casts to an ObjectId. The model
  takes the result of the cast: \<open>Some i\<close>, or \<open>None\<close> for a string that is no ObjectId,
  on which the query throws.
\<close>

definition put_tasks_id ::
  "world \<Rightarrow> db \<Rightarrow> oid \<Rightarrow> oid option \<Rightarrow> json list \<Rightarrow> updates \<Rightarrow> outcome \<times> db" where
  "put_tasks_id w d uid tid errors u =
     (if errors \<noteq> [] then (Response 400 (JObj [(''errors'', JArr errors)]), d)
      else
        (case tid of
           None \<Rightarrow> (Rejected CastError, d)
         | Some i \<Rightarrow>
             (case find (\<lambda>t. task_id t = i \<and> userId t = uid) (tasks d) of
                None \<Rightarrow> (Response 404 (message ''Task not found''), d)
              | Some t \<Rightarrow>
                  (Response 200 (task_json (apply_updates (now w) u t)),
                   d\<lparr>tasks := update_first (\<lambda>t. task_id t = i \<and> userId t = uid)
                                 (apply_updates (now w) u) (tasks d)\<rparr>))))"

definition delete_tasks_id :: "db \<Rightarrow> oid \<Rightarrow> oid option \<Rightarrow> outcome \<times> db" where
  "delete_tasks_id d uid tid =
     (case tid of
        None \<Rightarrow> (Rejected CastError, d)
      | Some i \<Rightarrow>
          (case find (\<lambda>t. task_id t = i \<and> userId t = uid) (tasks d) of
             None \<Rightarrow> (Response 404 (message ''Task not found''), d)
           | Some removed \<Rightarrow>
               (Response 200 (JObj [(''success'', JBool True)]),
                d\<lparr>tasks := remove_first (\<lambda>t. task_id t = i \<and> userId t = uid) (tasks d)\<rparr>)))"

section \<open>Startup (index, lib/db)\<close>

text \<open>
  \<^verbatim>\<open>connect()\<close> throws when the connection string is missing; \<open>reachable uri dbName\<close>
  says whether \<^verbatim>\<open>mongoose.connect(uri, { dbName })\<close> resolves.
\<close>

datatype startup = Listening nat | Failed string

definition connect :: "process_env \<Rightarrow> (string \<Rightarrow> string \<Rightarrow> bool) \<Rightarrow> string + unit" where
  "connect env reachable =
     (let uri = or_else (MONGODB_URI env) '''' in
      if uri = [] then Inl ''MONGODB_URI missing''
      else
        let dbName = or_else (MONGODB_DB_NAME env) ''intern_tasks'' in
        if reachable uri dbName then Inr () else Inl ''mongoose.connect rejected'')"

text \<open>
  \<^verbatim>\<open>const port = Number(process.env.PORT || 5000)\<close>, then
  \<^verbatim>\<open>connect().then(() => app.listen(port))\<close>. \<open>to_number s\<close> is the natural number that
  \<^verbatim>\<open>Number(s)\<close> is, \<open>None\<close> when it is none (not a number, negative, or with a
  fraction). \<^verbatim>\<open>app.listen\<close> throws on a port that is no natural number below 65536, and
  \<open>free p\<close> says whether the port \<open>p\<close> can be bound. The process fails when
  \<^verbatim>\<open>connect\<close> rejects, when \<^verbatim>\<open>listen\<close> throws, and when the port cannot be bound.
\<close>

definition start ::
  "(string \<Rightarrow> nat option) \<Rightarrow> (nat \<Rightarrow> bool) \<Rightarrow> process_env \<Rightarrow> (string \<Rightarrow> string \<Rightarrow> bool)
     \<Rightarrow> startup" where
  "start to_number free env reachable =
     (let port = (case PORT env of
                    None \<Rightarrow> Some 5000
                  | Some s \<Rightarrow> if s = [] then Some 5000 else to_number s)
      in
        case connect env reachable of
          Inl e \<Rightarrow> Failed e
        | Inr u \<Rightarrow>
            (case port of
               None \<Rightarrow> Failed ''ERR_SOCKET_BAD_PORT''
             | Some p \<Rightarrow>
                 if 65536 \<le> p then Failed ''ERR_SOCKET_BAD_PORT''
                 else if free p then Listening p
                 else Failed ''EADDRINUSE''))"

section \<open>What the theorems assume of the libraries and of the store\<close>

text \<open>
  \<^verbatim>\<open>jsonwebtoken\<close>: signing with a secret that is not empty returns a token that is not
  empty; the token expires \<open>86400\<close> seconds (\<^verbatim>\<open>'24h'\<close>) after the clock of its
  issuance, and until then it verifies, under the same secret, to the payload it was
  signed with.
\<close>

definition jwt_contract :: "jwt_lib \<Rightarrow> bool" where
  "jwt_contract J =
     (\<forall>u secret c. secret \<noteq> [] \<longrightarrow>
        (\<exists>tok. jwt_sign J u secret ''24h'' c = Some tok \<and> tok \<noteq> []
           \<and> (\<forall>c'. jwt_verify J tok secret c' =
                  (if c' < c + 86400 then Some \<lparr>pid = u, iat = c, exp = c + 86400\<rparr>
                   else None))))"

text \<open>
  \<^verbatim>\<open>bcrypt\<close>: the hash of a password under a generated salt is not the password, and
  the password compares equal to it.
\<close>

definition bcrypt_contract :: "bcrypt_lib \<Rightarrow> bool" where
  "bcrypt_contract B =
     (\<forall>p rounds r. hash B p (genSalt B rounds r) \<noteq> p
        \<and> compare B p (hash B p (genSalt B rounds r)))"

text \<open>The store keeps \<^verbatim>\<open>_id\<close> unique in each collection.\<close>

definition unique_ids :: "db \<Rightarrow> bool" where
  "unique_ids d = (distinct (map task_id (tasks d)) \<and> distinct (map user_id (users d)))"

text \<open>The keys of a JSON object, in order.\<close>

definition json_keys :: "json \<Rightarrow> string list" where
  "json_keys j = (case j of JObj kvs \<Rightarrow> map fst kvs | _ \<Rightarrow> [])"

definition is_object :: "json \<Rightarrow> bool" where
  "is_object j = (case j of JObj kvs \<Rightarrow> True | _ \<Rightarrow> False)"

definition task_fields :: "string list" where
  "task_fields =
     [''id'', ''title'', ''description'', ''status'', ''priority'', ''createdAt'', ''updatedAt'']"

definition no_updates :: updates where
  "no_updates = \<lparr>upd_title = None, upd_description = None, upd_status = None, upd_priority = None\<rparr>"

section \<open>Instances for evaluation\<close>

text \<open>
  A token format satisfying \<open>jwt_contract\<close>: the subject and the expiry in unary,
  followed by the secret.
\<close>

definition ref_sign :: "oid \<Rightarrow> string \<Rightarrow> string \<Rightarrow> nat \<Rightarrow> string option" where
  "ref_sign u secret e c =
     (if secret = [] \<or> e \<noteq> ''24h'' then None
      else Some (replicate (Suc u) (CHR ''i'') @ replicate (c + 86400) (CHR ''e'')
                 @ CHR ''.'' # secret))"

definition ref_verify :: "string \<Rightarrow> string \<Rightarrow> nat \<Rightarrow> payload option" where
  "ref_verify tok secret c =
     (let n = length (takeWhile (\<lambda>x. x = CHR ''i'') tok);
          r = dropWhile (\<lambda>x. x = CHR ''i'') tok;
          e = length (takeWhile (\<lambda>x. x = CHR ''e'') r);
          s = dropWhile (\<lambda>x. x = CHR ''e'') r
      in if n = 0 \<or> e < 86400 \<or> s \<noteq> CHR ''.'' # secret \<or> e \<le> c then None
         else Some \<lparr>pid = n - 1, iat = e - 86400, exp = e\<rparr>)"

definition ref_jwt :: jwt_lib where
  "ref_jwt = \<lparr>jwt_sign = ref_sign, jwt_verify = ref_verify\<rparr>"

text \<open>A hash satisfying \<open>bcrypt_contract\<close>: the salt, a run of dollar signs, before the password.\<close>

definition ref_compare :: "string \<Rightarrow> string \<Rightarrow> bool" where
  "ref_compare candidate h =
     (length candidate < length h
      \<and> drop (length h - length candidate) h = candidate
      \<and> list_all (\<lambda>x. x = CHR ''$'') (take (length h - length candidate) h))"

definition ref_bcrypt :: bcrypt_lib where
  "ref_bcrypt =
     \<lparr>genSalt = (\<lambda>rounds r. replicate (Suc r) (CHR ''$'')),
      hash = (\<lambda>p salt. salt @ p),
      compare = ref_compare\<rparr>"

text \<open>A store that accepts every connection.\<close>

definition store_up :: "string \<Rightarrow> string \<Rightarrow> bool" where
  "store_up uri dbName = True"

text \<open>
  The surroundings of a start in which no \<^verbatim>\<open>PORT\<close> string is a number and every port
  can be bound.
\<close>

definition not_a_number :: "string \<Rightarrow> nat option" where
  "not_a_number s = None"

definition port_free :: "nat \<Rightarrow> bool" where
  "port_free p = True"

text \<open>A filter that leaves the markup passed on to it as it is.\<close>

definition keep_markup :: "string \<Rightarrow> string" where
  "keep_markup v = v"

text \<open>An engine that refuses every pattern passed on to it.\<close>

definition no_engine :: "string \<Rightarrow> (string \<Rightarrow> bool) option" where
  "no_engine p = None"

text \<open>Two users, and the two reports of the search scenario, owned by the first.\<close>

definition env_ok :: process_env where
  "env_ok = \<lparr>JWT_SECRET = Some ''s3cret'', MONGODB_URI = Some ''mongodb://localhost:27017'',
             MONGODB_DB_NAME = None, PORT = None\<rparr>"

definition env_no_secret :: process_env where
  "env_no_secret = \<lparr>JWT_SECRET = None, MONGODB_URI = Some ''mongodb://localhost:27017'',
                    MONGODB_DB_NAME = None, PORT = None\<rparr>"

definition w0 :: world where
  "w0 = \<lparr>now = 5000, fresh_oid = 30, entropy = 2, clock = 5\<rparr>"

definition alice :: user where
  "alice = \<lparr>user_id = 1, username = ''alice'', email = ''alice@x.com'',
            password = ''$$$secret1'', user_createdAt = 1000\<rparr>"

definition bob :: user where
  "bob = \<lparr>user_id = 2, username = ''bob'', email = ''bob@x.com'',
          password = ''$hunter22'', user_createdAt = 1100\<rparr>"

definition report_a :: task where
  "report_a = \<lparr>task_id = 10, title = ''Report A'', description = '''', status = ''todo'',
               priority = ''medium'', userId = 1, createdAt = 2000, updatedAt = 2000\<rparr>"

definition report_b :: task where
  "report_b = \<lparr>task_id = 11, title = ''Report B'', description = ''urgent'', status = ''todo'',
               priority = ''medium'', userId = 1, createdAt = 3000, updatedAt = 3000\<rparr>"

definition db0 :: db where
  "db0 = \<lparr>users = [alice, bob], tasks = [report_a, report_b]\<rparr>"

section \<open>The instances meet what is assumed\<close>

lemma ref_jwt_contract: "jwt_contract ref_jwt"
  unfolding jwt_contract_def ref_jwt_def
  by (auto simp: ref_sign_def ref_verify_def takeWhile_append dropWhile_append Let_def)

lemma ref_bcrypt_contract: "bcrypt_contract ref_bcrypt"
  unfolding bcrypt_contract_def ref_bcrypt_def
  by (auto simp: ref_compare_def list_all_iff)

lemma unique_ids_db0: "unique_ids db0"
  by (simp add: unique_ids_def db0_def alice_def bob_def report_a_def report_b_def)

section \<open>Auth Gate and Token Service\<close>

lemma bearer_token_Bearer: "bearer_token (Some (''Bearer '' @ t)) = t"
  by (simp add: bearer_token_def or_else_def)

lemma bearer_token_carried:
  "bearer_token h \<noteq> [] \<Longrightarrow> h = Some (''Bearer '' @ bearer_token h)"
proof -
  assume ne: "bearer_token h \<noteq> []"
  then obtain s where h: "h = Some s"
    by (cases h) (auto simp: bearer_token_def or_else_def)
  from ne h have "take 7 s = ''Bearer ''" and "bearer_token h = drop 7 s"
    by (auto simp: bearer_token_def or_else_def Let_def split: if_splits)
  then have "''Bearer '' @ bearer_token h = s"
    by (metis append_take_drop_id)
  with h show ?thesis by simp
qed

lemma auth_no_token:
  "bearer_token h = [] \<Longrightarrow> auth J env c h = Reply 401 (message ''Unauthorized'')"
  by (simp add: auth_def)

lemma auth_token:
  "t \<noteq> [] \<Longrightarrow>
   auth J env c (Some (''Bearer '' @ t)) =
     (if or_else (JWT_SECRET env) '''' = [] then Reply 500 (message ''Server config error'')
      else (case jwt_verify J t (or_else (JWT_SECRET env) '''') c of
              None \<Rightarrow> Reply 401 (message ''Unauthorized'')
            | Some p \<Rightarrow> Next (pid p)))"
  unfolding auth_def bearer_token_Bearer by (simp add: Let_def)

text \<open>
  C3. A request whose authorization header is not \<^verbatim>\<open>Bearer\<close> followed by a token gets
  401 Unauthorized whatever the verification function is, so verification is not
  consulted. With a token \<open>t\<close> and no signing secret in the configuration the answer is
  500, the server configuration error. With a token and a secret the answer is 401 when
  \<^verbatim>\<open>jwt.verify\<close> throws, and otherwise the request continues with the user identifier
  of the payload. The request continues in no other case.
\<close>

theorem auth_gate:
  "((\<forall>t. h = Some (''Bearer '' @ t) \<longrightarrow> t = []) \<longrightarrow>
      auth J env c h = Reply 401 (message ''Unauthorized'')
      \<and> (\<forall>J'. auth J' env c h = auth J env c h))
   \<and> (t \<noteq> [] \<and> or_else (JWT_SECRET env) '''' = [] \<longrightarrow>
        auth J env c (Some (''Bearer '' @ t)) = Reply 500 (message ''Server config error''))
   \<and> (t \<noteq> [] \<and> or_else (JWT_SECRET env) '''' \<noteq> [] \<longrightarrow>
        auth J env c (Some (''Bearer '' @ t)) =
          (case jwt_verify J t (or_else (JWT_SECRET env) '''') c of
             None \<Rightarrow> Reply 401 (message ''Unauthorized'')
           | Some p \<Rightarrow> Next (pid p)))
   \<and> (\<forall>u. auth J env c h = Next u \<longrightarrow>
        (\<exists>tok p. h = Some (''Bearer '' @ tok) \<and> tok \<noteq> [] \<and> or_else (JWT_SECRET env) '''' \<noteq> []
           \<and> jwt_verify J tok (or_else (JWT_SECRET env) '''') c = Some p \<and> pid p = u))"
proof (intro conjI impI allI)
  assume none: "\<forall>t. h = Some (''Bearer '' @ t) \<longrightarrow> t = []"
  have empty: "bearer_token h = []"
  proof (rule ccontr)
    assume "bearer_token h \<noteq> []"
    with bearer_token_carried[OF this] none show False by blast
  qed
  then show "auth J env c h = Reply 401 (message ''Unauthorized'')"
    by (rule auth_no_token)
  fix J'
  from empty show "auth J' env c h = auth J env c h"
    by (simp add: auth_no_token)
next
  assume "t \<noteq> [] \<and> or_else (JWT_SECRET env) '''' = []"
  then show "auth J env c (Some (''Bearer '' @ t)) = Reply 500 (message ''Server config error'')"
    by (simp add: auth_token del: append.simps)
next
  assume "t \<noteq> [] \<and> or_else (JWT_SECRET env) '''' \<noteq> []"
  then show "auth J env c (Some (''Bearer '' @ t)) =
          (case jwt_verify J t (or_else (JWT_SECRET env) '''') c of
             None \<Rightarrow> Reply 401 (message ''Unauthorized'')
           | Some p \<Rightarrow> Next (pid p))"
    by (simp add: auth_token del: append.simps)
next
  fix u
  assume nxt: "auth J env c h = Next u"
  then have ne: "bearer_token h \<noteq> []"
    by (auto simp: auth_def)
  from bearer_token_carried[OF ne] have h: "h = Some (''Bearer '' @ bearer_token h)" .
  from nxt ne have "or_else (JWT_SECRET env) '''' \<noteq> []
      \<and> (\<exists>p. jwt_verify J (bearer_token h) (or_else (JWT_SECRET env) '''') c = Some p \<and> pid p = u)"
    by (auto simp: auth_def Let_def split: if_splits option.splits)
  with h ne show "\<exists>tok p. h = Some (''Bearer '' @ tok) \<and> tok \<noteq> []
           \<and> or_else (JWT_SECRET env) '''' \<noteq> []
           \<and> jwt_verify J tok (or_else (JWT_SECRET env) '''') c = Some p \<and> pid p = u"
    by blast
qed

theorem auth_gate_witness:
  "auth ref_jwt env_ok 5 None = Reply 401 (message ''Unauthorized'')
   \<and> auth ref_jwt env_ok 5 (Some ''Basic abc'') = Reply 401 (message ''Unauthorized'')
   \<and> auth ref_jwt env_no_secret 5 (Some (''Bearer '' @ ''abc''))
       = Reply 500 (message ''Server config error'')
   \<and> auth ref_jwt env_ok 5 (Some (''Bearer '' @ ''abc'')) = Reply 401 (message ''Unauthorized'')
   \<and> auth ref_jwt env_ok 5
        (Some (''Bearer '' @ replicate 2 (CHR ''i'') @ replicate 86400 (CHR ''e'') @ ''.s3cret''))
       = Next 1"
proof -
  let ?tok = "replicate 2 (CHR ''i'') @ replicate 86400 (CHR ''e'') @ ''.s3cret''"
  have s0: "or_else (JWT_SECRET env_no_secret) '''' = []"
    by (simp add: env_no_secret_def or_else_def)
  have s1: "or_else (JWT_SECRET env_ok) '''' = ''s3cret''"
    by (simp add: env_ok_def or_else_def)
  have v1: "jwt_verify ref_jwt ''abc'' ''s3cret'' 5 = None"
    by (simp add: ref_jwt_def ref_verify_def)
  have v2: "jwt_verify ref_jwt ?tok ''s3cret'' 5 = Some \<lparr>pid = 1, iat = 0, exp = 86400\<rparr>"
    by (simp add: ref_jwt_def ref_verify_def takeWhile_append dropWhile_append)
  have 1: "auth ref_jwt env_ok 5 None = Reply 401 (message ''Unauthorized'')"
    by (rule auth_gate[where h = None and J = ref_jwt and env = env_ok and c = 5,
          THEN conjunct1, THEN mp, THEN conjunct1]) simp
  have 2: "auth ref_jwt env_ok 5 (Some ''Basic abc'') = Reply 401 (message ''Unauthorized'')"
    by (rule auth_gate[where h = "Some ''Basic abc''" and J = ref_jwt and env = env_ok and c = 5,
          THEN conjunct1, THEN mp, THEN conjunct1]) simp
  have 3: "auth ref_jwt env_no_secret 5 (Some (''Bearer '' @ ''abc''))
           = Reply 500 (message ''Server config error'')"
    by (rule auth_gate[where J = ref_jwt and env = env_no_secret and c = 5 and t = "''abc''",
          THEN conjunct2, THEN conjunct1, THEN mp]) (simp add: s0)
  have "auth ref_jwt env_ok 5 (Some (''Bearer '' @ ''abc'')) =
          (case jwt_verify ref_jwt ''abc'' (or_else (JWT_SECRET env_ok) '''') 5 of
             None \<Rightarrow> Reply 401 (message ''Unauthorized'')
           | Some p \<Rightarrow> Next (pid p))"
    by (rule auth_gate[where J = ref_jwt and env = env_ok and c = 5 and t = "''abc''",
          THEN conjunct2, THEN conjunct2, THEN conjunct1, THEN mp]) (simp add: s1)
  then have 4: "auth ref_jwt env_ok 5 (Some (''Bearer '' @ ''abc'')) = Reply 401 (message ''Unauthorized'')"
    unfolding s1 v1 by simp
  have "auth ref_jwt env_ok 5 (Some (''Bearer '' @ ?tok)) =
          (case jwt_verify ref_jwt ?tok (or_else (JWT_SECRET env_ok) '''') 5 of
             None \<Rightarrow> Reply 401 (message ''Unauthorized'')
           | Some p \<Rightarrow> Next (pid p))"
    by (rule auth_gate[where J = ref_jwt and env = env_ok and c = 5 and t = ?tok,
          THEN conjunct2, THEN conjunct2, THEN conjunct1, THEN mp]) (simp add: s1)
  then have 5: "auth ref_jwt env_ok 5 (Some (''Bearer '' @ ?tok)) = Next 1"
    unfolding s1 v2 by simp
  from 1 2 3 4 5 show ?thesis by blast
qed

text \<open>
  C4. Under a configured secret, the token issued for \<open>u\<close> at clock \<open>c\<close> (in seconds)
  exists, and at every clock before \<open>c + 86400\<close> it verifies to a payload whose
  identifier is \<open>u\<close>, so the Auth Gate lets the request through as \<open>u\<close>; from
  \<open>c + 86400\<close> on, verification fails and the Auth Gate answers 401.
\<close>

theorem issue_then_verify:
  assumes "jwt_contract J" and "or_else (JWT_SECRET env) '''' \<noteq> []"
  shows "\<exists>tok. issue J env c u = Some tok
           \<and> (\<forall>c'. c' < c + 86400 \<longrightarrow>
                 (\<exists>p. jwt_verify J tok (or_else (JWT_SECRET env) '''') c' = Some p \<and> pid p = u)
                 \<and> auth J env c' (Some (''Bearer '' @ tok)) = Next u)
           \<and> (\<forall>c'. c + 86400 \<le> c' \<longrightarrow>
                 jwt_verify J tok (or_else (JWT_SECRET env) '''') c' = None
                 \<and> auth J env c' (Some (''Bearer '' @ tok)) = Reply 401 (message ''Unauthorized''))"
proof -
  let ?s = "or_else (JWT_SECRET env) ''''"
  from assms obtain tok where
    sg: "jwt_sign J u ?s ''24h'' c = Some tok" and ne: "tok \<noteq> []" and
    vf: "\<And>c'. jwt_verify J tok ?s c' =
           (if c' < c + 86400 then Some \<lparr>pid = u, iat = c, exp = c + 86400\<rparr> else None)"
    unfolding jwt_contract_def by blast
  have "issue J env c u = Some tok"
    using sg by (simp add: issue_def)
  moreover have "auth J env c' (Some (''Bearer '' @ tok)) =
      (if c' < c + 86400 then Next u else Reply 401 (message ''Unauthorized''))" for c'
    unfolding auth_token[OF ne] using assms(2) by (simp add: vf)
  ultimately show ?thesis
    using vf by auto
qed

theorem issue_then_verify_witness:
  "\<exists>tok. issue ref_jwt env_ok 5 1 = Some tok
     \<and> auth ref_jwt env_ok 86404 (Some (''Bearer '' @ tok)) = Next 1
     \<and> auth ref_jwt env_ok 86405 (Some (''Bearer '' @ tok)) = Reply 401 (message ''Unauthorized'')"
proof -
  have s1: "or_else (JWT_SECRET env_ok) '''' \<noteq> []"
    by (simp add: env_ok_def or_else_def)
  from issue_then_verify[OF ref_jwt_contract s1, of 5 1] obtain tok where
    i: "issue ref_jwt env_ok 5 1 = Some tok" and
    a: "\<forall>c'. c' < 5 + 86400 \<longrightarrow> auth ref_jwt env_ok c' (Some (''Bearer '' @ tok)) = Next 1" and
    b: "\<forall>c'. 5 + 86400 \<le> c' \<longrightarrow>
          auth ref_jwt env_ok c' (Some (''Bearer '' @ tok)) = Reply 401 (message ''Unauthorized'')"
    by blast
  have "(86404::nat) < 5 + 86400" and "(5::nat) + 86400 \<le> 86405"
    by simp_all
  with a b have "auth ref_jwt env_ok 86404 (Some (''Bearer '' @ tok)) = Next 1"
    and "auth ref_jwt env_ok 86405 (Some (''Bearer '' @ tok)) = Reply 401 (message ''Unauthorized'')"
    by blast+
  with i show ?thesis by blast
qed

section \<open>Credential Store\<close>

lemma post_login_token:
  assumes "post_login B J env w d errors em pw = Response 200 body"
  shows "\<exists>u tok. User_findOne_email d em = Some u \<and> comparePassword B u pw
           \<and> issue J env (clock w) (user_id u) = Some tok
           \<and> body = JObj [(''token'', JStr tok),
                          (''user'', JObj [(''id'', JOid (user_id u)),
                                           (''username'', JStr (username u)),
                                           (''email'', JStr (email u))])]"
  using assms
  by (auto simp: post_login_def message_def split: if_splits option.splits)

text \<open>
  C7. A login that passes validation fails with the same response, 401 and the message
  \<^verbatim>\<open>Invalid credentials\<close>, when no user has the email and when the user exists but
  the password does not compare equal to the stored hash.
\<close>

theorem login_failure_uniform:
  assumes "errors = []"
    and "User_findOne_email d em = None
         \<or> (\<exists>u. User_findOne_email d em = Some u \<and> \<not> comparePassword B u pw)"
  shows "post_login B J env w d errors em pw = Response 401 (message ''Invalid credentials'')"
  using assms by (auto simp: post_login_def)

theorem login_failure_uniform_witness:
  "post_login ref_bcrypt ref_jwt env_ok w0 db0 [] ''nobody@x.com'' ''secret1''
     = Response 401 (message ''Invalid credentials'')
   \<and> post_login ref_bcrypt ref_jwt env_ok w0 db0 [] ''alice@x.com'' ''secret2''
     = Response 401 (message ''Invalid credentials'')"
proof -
  have n: "User_findOne_email db0 ''nobody@x.com'' = None"
    by (simp add: User_findOne_email_def db0_def alice_def bob_def toLowerCase_def trim_def
          lower_def is_space_def)
  have a: "User_findOne_email db0 ''alice@x.com'' = Some alice"
    by (simp add: User_findOne_email_def db0_def alice_def bob_def toLowerCase_def trim_def
          lower_def is_space_def)
  have c: "\<not> comparePassword ref_bcrypt alice ''secret2''"
    by (simp add: comparePassword_def ref_bcrypt_def ref_compare_def alice_def)
  from n have 1: "post_login ref_bcrypt ref_jwt env_ok w0 db0 [] ''nobody@x.com'' ''secret1''
     = Response 401 (message ''Invalid credentials'')"
    by (intro login_failure_uniform) simp_all
  from a c have 2: "post_login ref_bcrypt ref_jwt env_ok w0 db0 [] ''alice@x.com'' ''secret2''
     = Response 401 (message ''Invalid credentials'')"
    by (intro login_failure_uniform) simp_all
  from 1 2 show ?thesis by blast
qed

subsection \<open>Finding and replacing the first match\<close>

lemma find_append_last:
  "\<forall>x \<in> set xs. \<not> P x \<Longrightarrow> P y \<Longrightarrow> find P (xs @ [y]) = Some y"
  by (induction xs) auto

lemma find_by_id:
  "distinct (map k xs) \<Longrightarrow> t \<in> set xs \<Longrightarrow> Q t \<Longrightarrow> find (\<lambda>x. k x = k t \<and> Q x) xs = Some t"
proof (induction xs)
  case Nil
  then show ?case by simp
next
  case (Cons a xs)
  then show ?case by (cases "a = t") (auto simp: image_iff)
qed

lemma find_by_id_other:
  "distinct (map k xs) \<Longrightarrow> t \<in> set xs \<Longrightarrow> \<not> Q t \<Longrightarrow> find (\<lambda>x. k x = k t \<and> Q x) xs = None"
  by (auto simp: find_None_iff distinct_map inj_on_def)

lemma update_first_by_id:
  "distinct (map k xs) \<Longrightarrow> t \<in> set xs \<Longrightarrow> Q t \<Longrightarrow>
     update_first (\<lambda>x. k x = k t \<and> Q x) f xs = map (\<lambda>x. if k x = k t then f t else x) xs"
proof (induction xs)
  case Nil
  then show ?case by simp
next
  case (Cons a xs)
  show ?case
  proof (cases "a = t")
    case True
    with Cons.prems have "\<forall>x \<in> set xs. k x \<noteq> k t" by (auto simp: image_iff)
    then have "map (\<lambda>x. if k x = k t then f t else x) xs = xs"
      by (induction xs) auto
    with True Cons.prems show ?thesis by simp
  next
    case False
    with Cons.prems have "k a \<noteq> k t" and "t \<in> set xs" and "distinct (map k xs)"
      by (auto simp: image_iff)
    with Cons.IH Cons.prems show ?thesis by simp
  qed
qed

lemma update_first_keeps:
  "find P xs = Some v \<Longrightarrow> g (f v) = g v \<Longrightarrow> map g (update_first P (\<lambda>x. f v) xs) = map g xs"
  by (induction xs) (auto split: if_splits)

subsection \<open>Registration\<close>

lemma post_register_created:
  assumes "post_register B w d errors un em pw = (Response 201 j, d')"
  shows "errors = [] \<and> User_findOne_or d em un = None
         \<and> (\<exists>u. users d' = users d @ [u] \<and> tasks d' = tasks d \<and> j = public_user u
               \<and> user_id u = fresh_oid w \<and> username u = trim un
               \<and> email u = toLowerCase (trim em)
               \<and> password u = hash B pw (genSalt B 10 (entropy w)))"
  using assms
  by (auto simp: post_register_def User_create_def pre_save_def Let_def message_def
           split: if_splits option.splits sum.splits)

lemma post_register_exists:
  assumes "\<exists>x \<in> set (users d). email x = toLowerCase (trim em) \<or> username x = trim un"
  shows "post_register B w d [] un em pw = (Response 409 (message ''User already exists''), d)"
proof -
  from assms have "User_findOne_or d em un \<noteq> None"
    by (auto simp: User_findOne_or_def find_None_iff)
  then show ?thesis by (auto simp: post_register_def)
qed

lemma register_carol:
  "post_register ref_bcrypt w0 db0 [] ''carol'' ''Carol@X.com '' ''secret9''
     = (Response 201 (JObj [(''id'', JOid 30), (''username'', JStr ''carol''),
                            (''email'', JStr ''carol@x.com''), (''createdAt'', JDate 5000)]),
        db0\<lparr>users := [alice, bob, \<lparr>user_id = 30, username = ''carol'', email = ''carol@x.com'',
                                     password = ''$$$secret9'', user_createdAt = 5000\<rparr>]\<rparr>)"
  by code_simp

text \<open>
  C8. A registration that passes validation is answered 409 Conflict, the store left as
  it was, whenever a stored user has the submitted email (trimmed and lowercased, as it
  is stored) or the submitted username (trimmed): \<^verbatim>\<open>findOne\<close> with \<^verbatim>\<open>$or\<close> is the one
  query that decides. After a registration that succeeded, which added one user, every
  further registration with the same email is answered 409 and adds none, whatever its
  username and password.
\<close>

theorem register_conflict:
  assumes "errors = []"
  shows "((\<exists>x \<in> set (users d). email x = toLowerCase (trim em) \<or> username x = trim un) \<longrightarrow>
            post_register B w d errors un em pw
              = (Response 409 (message ''User already exists''), d))
         \<and> (\<forall>j d' w' un' pw'.
              post_register B w d errors un em pw = (Response 201 j, d') \<longrightarrow>
                length (users d') = Suc (length (users d))
                \<and> post_register B w' d' errors un' em pw'
                    = (Response 409 (message ''User already exists''), d'))"
proof -
  have second: "length (users d') = Suc (length (users d))
                \<and> post_register B w' d' [] un' em pw'
                    = (Response 409 (message ''User already exists''), d')"
    if "post_register B w d [] un em pw = (Response 201 j, d')" for j d' w' un' pw'
  proof -
    from post_register_created[OF that] obtain u where
      u: "users d' = users d @ [u]" "email u = toLowerCase (trim em)" by blast
    then have "\<exists>x \<in> set (users d'). email x = toLowerCase (trim em) \<or> username x = trim un'"
      by auto
    from post_register_exists[OF this] u(1) show ?thesis by simp
  qed
  from post_register_exists[of d em un B w pw] second assms show ?thesis by blast
qed

theorem register_conflict_witness:
  "post_register ref_bcrypt w0 db0 [] ''carol'' ''ALICE@x.com'' ''secret9''
     = (Response 409 (message ''User already exists''), db0)
   \<and> (\<exists>j d'. post_register ref_bcrypt w0 db0 [] ''carol'' ''Carol@X.com '' ''secret9''
                 = (Response 201 j, d')
          \<and> length (users d') = 3
          \<and> post_register ref_bcrypt (w0\<lparr>fresh_oid := 31\<rparr>) d' [] ''dave'' ''Carol@X.com '' ''hunter22''
              = (Response 409 (message ''User already exists''), d'))"
proof -
  note rc = register_conflict[where errors = "[]" and B = ref_bcrypt and w = w0 and d = db0]
  have "\<exists>x \<in> set (users db0). email x = toLowerCase (trim ''ALICE@x.com'') \<or> username x = trim ''carol''"
    by code_simp
  with rc[of "''ALICE@x.com''" "''carol''" "''secret9''"]
  have 1: "post_register ref_bcrypt w0 db0 [] ''carol'' ''ALICE@x.com'' ''secret9''
     = (Response 409 (message ''User already exists''), db0)"
    by blast
  from rc[of "''Carol@X.com ''" "''carol''" "''secret9''"] register_carol
  have 2: "\<exists>j d'. post_register ref_bcrypt w0 db0 [] ''carol'' ''Carol@X.com '' ''secret9''
                 = (Response 201 j, d')
          \<and> length (users d') = Suc (length (users db0))
          \<and> post_register ref_bcrypt (w0\<lparr>fresh_oid := 31\<rparr>) d' [] ''dave'' ''Carol@X.com '' ''hunter22''
              = (Response 409 (message ''User already exists''), d')"
    by blast
  have "Suc (length (users db0)) = 3"
    by (simp add: db0_def)
  with 1 2 show ?thesis by simp
qed

text \<open>
  C2. For a \<^verbatim>\<open>bcrypt\<close> that meets \<open>bcrypt_contract\<close>: a registration that succeeds with
  the plaintext \<open>pw\<close> appends one user whose stored password is the hash of \<open>pw\<close> under a
  salt of cost 10, is not \<open>pw\<close>, and against which \<open>comparePassword\<close> accepts \<open>pw\<close>; a
  login with the same email finds this record. The save hook leaves a document whose
  password path is not modified as it is and hashes the password of one whose password
  path is modified; a profile update changes no stored password.
\<close>

theorem register_stores_hash:
  assumes "bcrypt_contract B"
    and "post_register B w d errors un em pw = (Response 201 j, d')"
  shows "\<exists>u. users d' = users d @ [u]
           \<and> password u = hash B pw (genSalt B 10 (entropy w))
           \<and> password u \<noteq> pw
           \<and> User_findOne_email d' em = Some u
           \<and> comparePassword B u pw
           \<and> (\<forall>r m x. ''password'' \<notin> set m \<longrightarrow> pre_save B r m x = x)
           \<and> (\<forall>r m x. ''password'' \<in> set m \<longrightarrow>
                 pre_save B r m x = x\<lparr>password := hash B (password x) (genSalt B 10 r)\<rparr>)
           \<and> (\<forall>uid es un' em'.
                 map password (users (snd (put_profile d' uid es un' em')))
                   = map password (users d'))"
proof -
  from post_register_created[OF assms(2)] obtain u where
    u: "users d' = users d @ [u]" "email u = toLowerCase (trim em)"
       "password u = hash B pw (genSalt B 10 (entropy w))"
    and none: "User_findOne_or d em un = None"
    by blast
  from none have "\<forall>x \<in> set (users d). \<not> email x = toLowerCase (trim em)"
    by (auto simp: User_findOne_or_def find_None_iff)
  then have found: "User_findOne_email d' em = Some u"
    unfolding User_findOne_email_def u(1) using u(2) by (rule find_append_last)
  from assms(1) u(3) have ne: "password u \<noteq> pw" and cmp: "comparePassword B u pw"
    by (simp_all add: bcrypt_contract_def comparePassword_def)
  have keep: "map password (users (snd (put_profile d' uid es un' em'))) = map password (users d')"
    for uid es un' em'
  proof (cases "find (\<lambda>x. user_id x = uid) (users d')")
    case None
    then show ?thesis by (simp add: put_profile_def)
  next
    case (Some v)
    have "password (profile_updates un' em' v) = password v"
      by (simp add: profile_updates_def Let_def)
    with Some have "map password
        (update_first (\<lambda>x. user_id x = uid) (\<lambda>x. profile_updates un' em' v) (users d'))
          = map password (users d')"
      by (rule update_first_keeps)
    with Some show ?thesis by (simp add: put_profile_def Let_def)
  qed
  have hook1: "pre_save B r m x = x" if "''password'' \<notin> set m" for r m x
    using that by (simp add: pre_save_def)
  have hook2: "pre_save B r m x = x\<lparr>password := hash B (password x) (genSalt B 10 r)\<rparr>"
    if "''password'' \<in> set m" for r m x
    using that by (simp add: pre_save_def Let_def)
  from u(1) u(3) ne found cmp keep hook1 hook2 show ?thesis
    by blast
qed

theorem register_stores_hash_witness:
  "\<exists>u. users (snd (post_register ref_bcrypt w0 db0 [] ''carol'' ''Carol@X.com '' ''secret9''))
          = users db0 @ [u]
     \<and> password u = ''$$$secret9''
     \<and> password u \<noteq> ''secret9''
     \<and> comparePassword ref_bcrypt u ''secret9''"
proof -
  from register_stores_hash[OF ref_bcrypt_contract register_carol] obtain u where
    u: "users (db0\<lparr>users := [alice, bob, \<lparr>user_id = 30, username = ''carol'',
                email = ''carol@x.com'', password = ''$$$secret9'', user_createdAt = 5000\<rparr>]\<rparr>)
          = users db0 @ [u]"
       "password u \<noteq> ''secret9''" "comparePassword ref_bcrypt u ''secret9''"
    by blast
  from u(1) have "password u = ''$$$secret9''"
    by (auto simp: db0_def)
  with u show ?thesis
    unfolding register_carol by auto
qed

section \<open>Task Repository\<close>

lemma set_Task_find:
  "set (Task_find d uid st pr) \<subseteq> {t \<in> set (tasks d). userId t = uid}"
  by (auto simp: Task_find_def)

lemma get_tasks_docs:
  assumes "get_tasks E d uid errors q st pr = Response 200 body"
  shows "\<exists>docs. body = JArr (map task_json docs)
           \<and> set docs \<subseteq> {t \<in> set (tasks d). userId t = uid}"
proof -
  from assms have e: "errors = []"
    by (auto simp: get_tasks_def split: if_splits)
  show ?thesis
  proof (cases "truthy q")
    case False
    with assms e have "body = JArr (map task_json (Task_find d uid st pr))"
      by (simp add: get_tasks_def)
    with set_Task_find show ?thesis by blast
  next
    case True
    with assms e obtain m where
      "body = JArr (map task_json (filter (\<lambda>t. m (title t)) (Task_find d uid st pr)))"
      by (auto simp: get_tasks_def Let_def split: option.splits)
    moreover have "set (filter (\<lambda>t. m (title t)) (Task_find d uid st pr))
                   \<subseteq> {t \<in> set (tasks d). userId t = uid}"
      using set_Task_find[of d uid st pr] by auto
    ultimately show ?thesis by blast
  qed
qed

lemma db0_tasks: "tasks db0 = [report_a, report_b]"
  by (simp add: db0_def)

lemma db0_distinct: "distinct (map task_id (tasks db0))"
  by (simp add: db0_def report_a_def report_b_def)

text \<open>
  C1. Let \<open>t\<close> be a stored task owned by \<open>a\<close>, and \<open>b\<close> another principal, in a store
  with unique task identifiers. Every list that \<open>b\<close> obtains is made of documents none
  of which is \<open>t\<close> or carries its identifier. An update of \<open>t\<close>'s identifier by \<open>b\<close> that
  passes validation, and a delete of it by \<open>b\<close>, are answered 404 \<^verbatim>\<open>Task not found\<close>
  and leave the store as it was; no update of it by \<open>b\<close>, valid or not, changes the store
  or is answered 200. The 404 is the response given when the task is not in the store at
  all.
\<close>

theorem task_isolation:
  assumes "t \<in> set (tasks d)" and "userId t = a" and "b \<noteq> a"
    and "distinct (map task_id (tasks d))"
  shows "(\<forall>E errors q st pr body.
            get_tasks E d b errors q st pr = Response 200 body \<longrightarrow>
              (\<exists>docs. body = JArr (map task_json docs) \<and> t \<notin> set docs
                 \<and> (\<forall>x \<in> set docs. task_id x \<noteq> task_id t)))
         \<and> (\<forall>w u. put_tasks_id w d b (Some (task_id t)) [] u
                     = (Response 404 (message ''Task not found''), d))
         \<and> (\<forall>w errors u body.
               snd (put_tasks_id w d b (Some (task_id t)) errors u) = d
               \<and> fst (put_tasks_id w d b (Some (task_id t)) errors u) \<noteq> Response 200 body)
         \<and> delete_tasks_id d b (Some (task_id t)) = (Response 404 (message ''Task not found''), d)
         \<and> (\<forall>w u. fst (put_tasks_id w d b (Some (task_id t)) [] u)
                     = fst (put_tasks_id w (d\<lparr>tasks := remove1 t (tasks d)\<rparr>) b
                              (Some (task_id t)) [] u))
         \<and> fst (delete_tasks_id d b (Some (task_id t)))
             = fst (delete_tasks_id (d\<lparr>tasks := remove1 t (tasks d)\<rparr>) b (Some (task_id t)))"
proof -
  let ?gone = "d\<lparr>tasks := remove1 t (tasks d)\<rparr>"
  from assms have nf: "find (\<lambda>x. task_id x = task_id t \<and> userId x = b) (tasks d) = None"
    by (intro find_by_id_other) auto
  have nf': "find (\<lambda>x. task_id x = task_id t \<and> userId x = b) (remove1 t (tasks d)) = None"
    using nf by (auto simp: find_None_iff dest: notin_set_remove1)
  have lst: "\<exists>docs. body = JArr (map task_json docs) \<and> t \<notin> set docs
                \<and> (\<forall>x \<in> set docs. task_id x \<noteq> task_id t)"
    if "get_tasks E d b errors q st pr = Response 200 body" for E errors q st pr body
  proof -
    from get_tasks_docs[OF that] obtain docs where
      docs: "body = JArr (map task_json docs)" "set docs \<subseteq> {x \<in> set (tasks d). userId x = b}"
      by blast
    have other: "task_id x \<noteq> task_id t" if "x \<in> set docs" for x
    proof
      assume "task_id x = task_id t"
      moreover from that docs(2) have "x \<in> set (tasks d)" "userId x = b" by auto
      ultimately have "x = t" using assms(1,4) by (auto simp: distinct_map inj_on_def)
      with \<open>userId x = b\<close> assms(2,3) show False by simp
    qed
    then have "t \<notin> set docs" by blast
    with docs(1) other show ?thesis by blast
  qed
  from nf have upd: "put_tasks_id w d b (Some (task_id t)) [] u
                       = (Response 404 (message ''Task not found''), d)" for w u
    by (simp add: put_tasks_id_def)
  from nf have never: "snd (put_tasks_id w d b (Some (task_id t)) errors u) = d
                       \<and> fst (put_tasks_id w d b (Some (task_id t)) errors u) \<noteq> Response 200 body"
    for w errors u body
    by (simp add: put_tasks_id_def)
  from nf have del: "delete_tasks_id d b (Some (task_id t))
                       = (Response 404 (message ''Task not found''), d)"
    by (simp add: delete_tasks_id_def)
  from nf' have upd': "fst (put_tasks_id w ?gone b (Some (task_id t)) [] u)
                       = Response 404 (message ''Task not found'')" for w u
    by (simp add: put_tasks_id_def)
  from nf' have del': "fst (delete_tasks_id ?gone b (Some (task_id t)))
                       = Response 404 (message ''Task not found'')"
    by (simp add: delete_tasks_id_def)
  from lst upd never del upd' del' show ?thesis by (simp only: fst_conv) blast
qed

theorem task_isolation_witness:
  "(\<exists>docs. get_tasks no_engine db0 2 [] None None None = Response 200 (JArr (map task_json docs))
      \<and> report_a \<notin> set docs)
   \<and> put_tasks_id w0 db0 2 (Some (task_id report_a)) [] no_updates
       = (Response 404 (message ''Task not found''), db0)
   \<and> delete_tasks_id db0 2 (Some (task_id report_a))
       = (Response 404 (message ''Task not found''), db0)"
proof -
  have lst: "get_tasks no_engine db0 2 [] None None None = Response 200 (JArr [])"
    by code_simp
  have "report_a \<in> set (tasks db0)" and "userId report_a = 1" and "(2::nat) \<noteq> 1"
    by (simp_all add: db0_tasks report_a_def)
  note iso = task_isolation[OF this db0_distinct]
  from iso[THEN conjunct1, rule_format, OF lst] obtain docs where
    "JArr [] = JArr (map task_json docs)" and "report_a \<notin> set docs"
    by blast
  with lst have 1: "\<exists>docs. get_tasks no_engine db0 2 [] None None None
                      = Response 200 (JArr (map task_json docs)) \<and> report_a \<notin> set docs"
    by auto
  from iso[THEN conjunct2, THEN conjunct1, rule_format, of w0 no_updates]
  have 2: "put_tasks_id w0 db0 2 (Some (task_id report_a)) [] no_updates
             = (Response 404 (message ''Task not found''), db0)" .
  from iso[THEN conjunct2, THEN conjunct2, THEN conjunct2, THEN conjunct1]
  have 3: "delete_tasks_id db0 2 (Some (task_id report_a))
             = (Response 404 (message ''Task not found''), db0)" .
  from 1 2 3 show ?thesis by (intro conjI)
qed

text \<open>
  C9. For a stored task \<open>t\<close> and its owner, in a store with unique task identifiers, an
  update that passes validation is answered 200 with the updated task \<open>t'\<close>, which
  replaces \<open>t\<close> in the store while every other task and every user stays. Identifier,
  owner and creation time of \<open>t'\<close> are those of \<open>t\<close>, its last-modified time is the
  current time, each of title, description, status and priority that the request does not
  define is unchanged, and with no field defined \<open>t'\<close> is \<open>t\<close> with the new last-modified
  time.
\<close>

theorem update_frame:
  assumes "t \<in> set (tasks d)" and "userId t = uid" and "distinct (map task_id (tasks d))"
  shows "\<exists>t' d'. put_tasks_id w d uid (Some (task_id t)) [] u = (Response 200 (task_json t'), d')
           \<and> tasks d' = map (\<lambda>x. if task_id x = task_id t then t' else x) (tasks d)
           \<and> users d' = users d
           \<and> task_id t' = task_id t \<and> userId t' = userId t \<and> createdAt t' = createdAt t
           \<and> updatedAt t' = now w
           \<and> (upd_title u = None \<longrightarrow> title t' = title t)
           \<and> (upd_description u = None \<longrightarrow> description t' = description t)
           \<and> (upd_status u = None \<longrightarrow> status t' = status t)
           \<and> (upd_priority u = None \<longrightarrow> priority t' = priority t)
           \<and> (u = no_updates \<longrightarrow> t' = t\<lparr>updatedAt := now w\<rparr>)"
proof -
  let ?P = "\<lambda>x. task_id x = task_id t \<and> userId x = uid"
  define t' where "t' = apply_updates (now w) u t"
  define d' where "d' = d\<lparr>tasks := map (\<lambda>x. if task_id x = task_id t then t' else x) (tasks d)\<rparr>"
  from assms have f: "find ?P (tasks d) = Some t"
    by (intro find_by_id) auto
  from assms have m: "update_first ?P (apply_updates (now w) u) (tasks d)
                      = map (\<lambda>x. if task_id x = task_id t then t' else x) (tasks d)"
    unfolding t'_def by (intro update_first_by_id) auto
  from f m have run: "put_tasks_id w d uid (Some (task_id t)) [] u = (Response 200 (task_json t'), d')"
    by (simp add: put_tasks_id_def t'_def d'_def)
  have store: "tasks d' = map (\<lambda>x. if task_id x = task_id t then t' else x) (tasks d)"
    "users d' = users d"
    by (simp_all add: d'_def)
  have kept: "task_id t' = task_id t" "userId t' = userId t" "createdAt t' = createdAt t"
    "updatedAt t' = now w"
    by (simp_all add: t'_def apply_updates_def)
  have absent: "upd_title u = None \<longrightarrow> title t' = title t"
    "upd_description u = None \<longrightarrow> description t' = description t"
    "upd_status u = None \<longrightarrow> status t' = status t"
    "upd_priority u = None \<longrightarrow> priority t' = priority t"
    by (simp_all add: t'_def apply_updates_def)
  have empty: "u = no_updates \<longrightarrow> t' = t\<lparr>updatedAt := now w\<rparr>"
    by (simp add: t'_def apply_updates_def no_updates_def)
  from run store kept absent empty show ?thesis
    by (intro exI[of _ t'] exI[of _ d'] conjI)
qed

theorem update_frame_witness:
  "put_tasks_id w0 db0 1 (Some (task_id report_a)) [] no_updates
     = (Response 200 (task_json (report_a\<lparr>updatedAt := now w0\<rparr>)),
        db0\<lparr>tasks := [report_a\<lparr>updatedAt := now w0\<rparr>, report_b]\<rparr>)"
proof -
  have "report_a \<in> set (tasks db0)" and "userId report_a = 1"
    by (simp_all add: db0_tasks report_a_def)
  from update_frame[OF this db0_distinct, of w0 no_updates] obtain t' d' where
    run: "put_tasks_id w0 db0 1 (Some (task_id report_a)) [] no_updates
            = (Response 200 (task_json t'), d')" and
    st: "tasks d' = map (\<lambda>x. if task_id x = task_id report_a then t' else x) (tasks db0)"
        "users d' = users db0" and
    t': "t' = report_a\<lparr>updatedAt := now w0\<rparr>"
    by blast
  from st have "d' = db0\<lparr>tasks := [t', report_b]\<rparr>"
    by (simp add: db0_def report_a_def report_b_def)
  with run t' show ?thesis by simp
qed

text \<open>
  C10. In a 200 response of the list every element of the array, and in a 201 response of
  the create and a 200 response of the update the body, is an object whose keys are
  \<^verbatim>\<open>id\<close>, \<^verbatim>\<open>title\<close>, \<^verbatim>\<open>description\<close>, \<^verbatim>\<open>status\<close>, \<^verbatim>\<open>priority\<close>,
  \<^verbatim>\<open>createdAt\<close> and \<^verbatim>\<open>updatedAt\<close>, and \<^verbatim>\<open>userId\<close> is none of them.
\<close>

theorem task_response_fields:
  "(\<forall>body. get_tasks E d uid errors q st pr = Response 200 body \<longrightarrow>
       (\<exists>js. body = JArr js \<and> (\<forall>j \<in> set js. is_object j \<and> json_keys j = task_fields)))
   \<and> (\<forall>body. fst (post_tasks w d uid errors ttl desc st pr) = Response 201 body \<longrightarrow>
         is_object body \<and> json_keys body = task_fields)
   \<and> (\<forall>body. fst (put_tasks_id w d uid tid errors u) = Response 200 body \<longrightarrow>
         is_object body \<and> json_keys body = task_fields)
   \<and> ''userId'' \<notin> set task_fields"
proof -
  have k: "is_object (task_json t) \<and> json_keys (task_json t) = task_fields" for t
    by (simp add: task_json_def is_object_def json_keys_def task_fields_def)
  have l: "\<exists>js. body = JArr js \<and> (\<forall>j \<in> set js. is_object j \<and> json_keys j = task_fields)"
    if "get_tasks E d uid errors q st pr = Response 200 body" for body
    using get_tasks_docs[OF that] k by auto
  have c: "is_object body \<and> json_keys body = task_fields"
    if "fst (post_tasks w d uid errors ttl desc st pr) = Response 201 body" for body
    using that k by (auto simp: post_tasks_def split: if_splits sum.splits)
  have p: "is_object body \<and> json_keys body = task_fields"
    if "fst (put_tasks_id w d uid tid errors u) = Response 200 body" for body
    using that k by (auto simp: put_tasks_id_def message_def split: if_splits option.splits)
  have "''userId'' \<notin> set task_fields"
    by (simp add: task_fields_def)
  with l c p show ?thesis by blast
qed

theorem task_response_fields_witness:
  "(\<exists>js. get_tasks no_engine db0 1 [] None None None = Response 200 (JArr js)
      \<and> length js = 2 \<and> list_all (\<lambda>j. json_keys j = task_fields) js)
   \<and> (\<exists>body. fst (post_tasks w0 db0 1 [] ''Buy milk'' None None None) = Response 201 body
         \<and> json_keys body = task_fields)
   \<and> (\<exists>body. fst (put_tasks_id w0 db0 1 (Some 10) [] no_updates) = Response 200 body
         \<and> json_keys body = task_fields)"
proof -
  note f = task_response_fields[where d = db0 and uid = 1 and errors = "[]" and w = w0
             and E = no_engine and q = None and st = None and pr = None
             and ttl = "''Buy milk''" and desc = None and tid = "Some 10" and u = no_updates]
  have l: "get_tasks no_engine db0 1 [] None None None
             = Response 200 (JArr [task_json report_b, task_json report_a])"
    by code_simp
  have c: "fst (post_tasks w0 db0 1 [] ''Buy milk'' None None None)
             = Response 201 (task_json \<lparr>task_id = 30, title = ''Buy milk'', description = '''',
                 status = ''todo'', priority = ''medium'', userId = 1, createdAt = 5000,
                 updatedAt = 5000\<rparr>)"
    by code_simp
  have p: "fst (put_tasks_id w0 db0 1 (Some 10) [] no_updates)
             = Response 200 (task_json (report_a\<lparr>updatedAt := 5000\<rparr>))"
    by code_simp
  from f l have "\<exists>js. get_tasks no_engine db0 1 [] None None None = Response 200 (JArr js)
      \<and> length js = 2 \<and> list_all (\<lambda>j. json_keys j = task_fields) js"
    by (auto simp: list_all_iff)
  moreover from f c have "\<exists>body. fst (post_tasks w0 db0 1 [] ''Buy milk'' None None None)
         = Response 201 body \<and> json_keys body = task_fields"
    by blast
  moreover from f p have "\<exists>body. fst (put_tasks_id w0 db0 1 (Some 10) [] no_updates)
         = Response 200 body \<and> json_keys body = task_fields"
    by blast
  ultimately show ?thesis by blast
qed

subsection \<open>The title search\<close>

lemma literal_pattern_simple:
  "literal_pattern p \<Longrightarrow> simple_pattern p \<and> list_all (\<lambda>c. c \<noteq> CHR ''.'') p"
  by (auto simp: literal_pattern_def simple_pattern_def list_all_iff regex_meta_def)

lemma match_here_literal:
  "list_all (\<lambda>c. c \<noteq> CHR ''.'') p \<Longrightarrow> match_here p s = prefix (map lower p) (map lower s)"
  by (induction p s rule: match_here.induct) auto

lemma regex_search_literal:
  assumes "list_all (\<lambda>c. c \<noteq> CHR ''.'') p"
  shows "regex_search p s = sublist (map lower p) (map lower s)"
proof (induction s)
  case Nil
  from assms show ?case by (simp add: match_here_literal)
next
  case (Cons c cs)
  from assms have "match_here p (c # cs) = prefix (map lower p) (map lower (c # cs))"
    by (rule match_here_literal)
  with Cons show ?case by (simp add: sublist_Cons_right)
qed

lemma insort_key_map:
  "(\<And>y. k (g y) = k y) \<Longrightarrow> insort_key k (g x) (map g xs) = map g (insort_key k x xs)"
  by (induction xs) auto

lemma sort_key_map:
  "(\<And>y. k (g y) = k y) \<Longrightarrow> sort_key k (map g xs) = map g (sort_key k xs)"
  by (induction xs) (auto simp: insort_key_map)

lemma Task_find_owner:
  "Task_find d uid None None
     = sort_key (\<lambda>t. - int (createdAt t)) (filter (\<lambda>t. userId t = uid) (tasks d))"
  by (simp add: Task_find_def truthy_def)

lemma get_tasks_literal:
  assumes "literal_pattern q"
  shows "get_tasks E d uid [] (Some q) None None
           = Response 200 (JArr (map task_json
               (filter (\<lambda>t. sublist (toLowerCase q) (toLowerCase (title t)))
                  (Task_find d uid None None))))"
proof (cases "q = []")
  case True
  then show ?thesis by (simp add: get_tasks_def truthy_def toLowerCase_def)
next
  case False
  from literal_pattern_simple[OF assms] have s: "simple_pattern q"
    and nd: "list_all (\<lambda>c. c \<noteq> CHR ''.'') q" by simp_all
  from False s have "get_tasks E d uid [] (Some q) None None
      = Response 200 (JArr (map task_json
          (filter (\<lambda>t. regex_search q (title t)) (Task_find d uid None None))))"
    by (simp add: get_tasks_def truthy_def or_else_def regex_i_def Let_def)
  then show ?thesis
    by (simp add: regex_search_literal[OF nd] toLowerCase_def)
qed

lemma sanitize_plain:
  "CHR ''<'' \<notin> set v \<Longrightarrow> CHR ''>'' \<notin> set v \<Longrightarrow> sanitize X v = v"
  by (simp add: sanitize_def)

lemma get_tasks_route_q:
  "get_tasks_route X E d uid (Some q) None None
     = get_tasks E d uid [] (Some (sanitize X (trim q))) None None"
  by (simp add: get_tasks_route_def taskQueryValidator_def)

text \<open>
  C5, the claim as stated fails, twice. The query \<^verbatim>\<open>.\<close> is a pattern that matches every
  title that is not empty, so the list returns both reports, and neither title contains a
  dot. The query \<^verbatim>\<open>report b\<close> between blanks is trimmed by the validator, so the list
  returns the second report, whose title does not contain the query with its blanks.
\<close>

theorem title_search_counterexample:
  "get_tasks_route keep_markup no_engine db0 1 (Some ''.'') None None
     = Response 200 (JArr [task_json report_b, task_json report_a])
   \<and> \<not> sublist (toLowerCase ''.'') (toLowerCase (title report_a))
   \<and> \<not> sublist (toLowerCase ''.'') (toLowerCase (title report_b))
   \<and> get_tasks_route keep_markup no_engine db0 1 (Some ''  report b  '') None None
       = Response 200 (JArr [task_json report_b])
   \<and> \<not> sublist (toLowerCase ''  report b  '') (toLowerCase (title report_b))"
  by code_simp

text \<open>
  C5, amended. Let \<open>q'\<close> be the query \<open>q\<close> as the route sanitises it: trimmed, then
  passed through the filter. For every owner, every store and every \<open>q\<close> whose \<open>q'\<close> holds
  no metacharacter of regular expressions (backslash, \<^verbatim>\<open>^ $ . | ? * + ( ) [ ] { }\<close>) and
  no NUL, the list with no status and no priority filter returns exactly the owner's
  tasks whose title contains \<open>q'\<close> as a case-insensitive substring, that is as a substring
  once both are lowercased. The descriptions do not matter: with every description
  replaced, the same tasks are returned in the same order.
\<close>

theorem title_search_literal:
  assumes "literal_pattern (sanitize X (trim q))"
  shows "\<exists>docs. get_tasks_route X E d uid (Some q) None None
                  = Response 200 (JArr (map task_json docs))
           \<and> mset docs = mset (filter (\<lambda>t. userId t = uid
                                  \<and> sublist (toLowerCase (sanitize X (trim q)))
                                       (toLowerCase (title t))) (tasks d))
           \<and> (\<forall>f. get_tasks_route X E (d\<lparr>tasks := map (\<lambda>t. t\<lparr>description := f t\<rparr>) (tasks d)\<rparr>)
                     uid (Some q) None None
                   = Response 200 (JArr (map task_json (map (\<lambda>t. t\<lparr>description := f t\<rparr>) docs))))"
proof -
  let ?q = "sanitize X (trim q)"
  let ?hit = "\<lambda>t. sublist (toLowerCase ?q) (toLowerCase (title t))"
  define docs where "docs = filter ?hit (Task_find d uid None None)"
  have run: "get_tasks_route X E d uid (Some q) None None
               = Response 200 (JArr (map task_json docs))"
    unfolding docs_def get_tasks_route_q by (rule get_tasks_literal[OF assms])
  have exact: "mset docs = mset (filter (\<lambda>t. userId t = uid \<and> ?hit t) (tasks d))"
    by (simp add: docs_def Task_find_owner filter_filter_mset)
  have indep: "get_tasks_route X E (d\<lparr>tasks := map (\<lambda>t. t\<lparr>description := f t\<rparr>) (tasks d)\<rparr>)
                 uid (Some q) None None
               = Response 200 (JArr (map task_json (map (\<lambda>t. t\<lparr>description := f t\<rparr>) docs)))"
    for f
  proof -
    let ?g = "\<lambda>t. t\<lparr>description := f t\<rparr>"
    let ?d = "d\<lparr>tasks := map ?g (tasks d)\<rparr>"
    have "Task_find ?d uid None None = map ?g (Task_find d uid None None)"
      by (simp add: Task_find_owner filter_map comp_def sort_key_map)
    then have "filter ?hit (Task_find ?d uid None None) = map ?g docs"
      by (simp add: docs_def filter_map comp_def)
    with get_tasks_literal[OF assms, of E ?d uid] show ?thesis
      unfolding get_tasks_route_q by simp
  qed
  from run exact indep show ?thesis by blast
qed

theorem title_search_literal_witness:
  "get_tasks_route keep_markup no_engine db0 1 (Some ''urgent'') None None
     = Response 200 (JArr [])
   \<and> get_tasks_route keep_markup no_engine db0 1 (Some ''  rEPORT b '') None None
       = Response 200 (JArr [task_json report_b])"
proof -
  have s1: "sanitize keep_markup (trim ''urgent'') = ''urgent''"
    and s2: "sanitize keep_markup (trim ''  rEPORT b '') = ''rEPORT b''"
    by code_simp+
  have l1: "literal_pattern (sanitize keep_markup (trim ''urgent''))"
    and l2: "literal_pattern (sanitize keep_markup (trim ''  rEPORT b ''))"
    by code_simp+
  have f1: "filter (\<lambda>t. userId t = 1 \<and> sublist (toLowerCase ''urgent'') (toLowerCase (title t)))
              (tasks db0) = []"
    by code_simp
  have f2: "filter (\<lambda>t. userId t = 1 \<and> sublist (toLowerCase ''rEPORT b'') (toLowerCase (title t)))
              (tasks db0) = [report_b]"
    by code_simp
  from title_search_literal[OF l1, of no_engine db0 1] obtain docs1 where
    r1: "get_tasks_route keep_markup no_engine db0 1 (Some ''urgent'') None None
           = Response 200 (JArr (map task_json docs1))" and
    m1: "mset docs1 = mset (filter (\<lambda>t. userId t = 1
            \<and> sublist (toLowerCase (sanitize keep_markup (trim ''urgent'')))
                 (toLowerCase (title t))) (tasks db0))"
    by blast
  from m1 have "docs1 = []"
    unfolding s1 f1 by simp
  with r1 have 1: "get_tasks_route keep_markup no_engine db0 1 (Some ''urgent'') None None
                     = Response 200 (JArr [])"
    by simp
  from title_search_literal[OF l2, of no_engine db0 1] obtain docs2 where
    r2: "get_tasks_route keep_markup no_engine db0 1 (Some ''  rEPORT b '') None None
           = Response 200 (JArr (map task_json docs2))" and
    m2: "mset docs2 = mset (filter (\<lambda>t. userId t = 1
            \<and> sublist (toLowerCase (sanitize keep_markup (trim ''  rEPORT b '')))
                 (toLowerCase (title t))) (tasks db0))"
    by blast
  from m2 have "docs2 = [report_b]"
    unfolding s2 f2 by simp
  with r2 have 2: "get_tasks_route keep_markup no_engine db0 1 (Some ''  rEPORT b '') None None
             = Response 200 (JArr [task_json report_b])"
    by simp
  from 1 2 show ?thesis by (intro conjI)
qed

section \<open>Startup and the signing secret\<close>

text \<open>
  C6, the claim as stated fails: with no signing secret in the configuration the service
  starts and listens, and a request that carries a bearer token is then answered with
  the 500 server configuration error.
\<close>

theorem secret_absent_counterexample:
  "JWT_SECRET env_no_secret = None
   \<and> start not_a_number port_free env_no_secret store_up = Listening 5000
   \<and> auth ref_jwt env_no_secret 5 (Some ''Bearer abc'')
       = Reply 500 (message ''Server config error'')"
  by code_simp

text \<open>
  C6, amended. Startup does not read the signing secret: with the rest of the
  configuration and the surroundings the same, the service starts or fails alike
  whatever the secret is, so an absent secret is no startup failure. An absent (or empty)
  secret is surfaced per request: the Auth Gate answers every request that carries a
  bearer token with the 500 server configuration error.
\<close>

theorem secret_absent_per_request:
  assumes "or_else (JWT_SECRET env) '''' = []"
  shows "(\<forall>s. start to_number free (env\<lparr>JWT_SECRET := s\<rparr>) reachable
                = start to_number free env reachable)
         \<and> (t \<noteq> [] \<longrightarrow>
              auth J env c (Some (''Bearer '' @ t)) = Reply 500 (message ''Server config error''))"
proof (intro conjI allI impI)
  fix s
  show "start to_number free (env\<lparr>JWT_SECRET := s\<rparr>) reachable
          = start to_number free env reachable"
    by (simp add: start_def connect_def Let_def)
next
  assume "t \<noteq> []"
  from auth_token[OF this] assms
  show "auth J env c (Some (''Bearer '' @ t)) = Reply 500 (message ''Server config error'')"
    by simp
qed

theorem secret_absent_per_request_witness:
  "start not_a_number port_free env_no_secret store_up
     = start not_a_number port_free (env_no_secret\<lparr>JWT_SECRET := Some ''s3cret''\<rparr>) store_up
   \<and> start not_a_number port_free (env_no_secret\<lparr>JWT_SECRET := Some ''s3cret''\<rparr>) store_up
       = Listening 5000
   \<and> auth ref_jwt env_no_secret 7 (Some (''Bearer '' @ ''xyz''))
       = Reply 500 (message ''Server config error'')"
proof -
  have s0: "or_else (JWT_SECRET env_no_secret) '''' = []"
    by (simp add: env_no_secret_def or_else_def)
  note g = secret_absent_per_request[OF s0, of not_a_number port_free store_up "''xyz''" ref_jwt 7]
  from g have 1: "start not_a_number port_free env_no_secret store_up
      = start not_a_number port_free (env_no_secret\<lparr>JWT_SECRET := Some ''s3cret''\<rparr>) store_up"
    by (simp only:)
  have 2: "start not_a_number port_free (env_no_secret\<lparr>JWT_SECRET := Some ''s3cret''\<rparr>) store_up
             = Listening 5000"
    by code_simp
  from g have 3: "auth ref_jwt env_no_secret 7 (Some (''Bearer '' @ ''xyz''))
                    = Reply 500 (message ''Server config error'')"
    by simp
  from 1 2 3 show ?thesis by (intro conjI)
qed

section \<open>Unique identifiers are an invariant of the store\<close>

lemma map_update_first:
  "(\<And>x. g (f x) = g x) \<Longrightarrow> map g (update_first P f xs) = map g xs"
  by (induction xs) auto

lemma set_remove_first: "set (remove_first P xs) \<subseteq> set xs"
  by (induction xs) auto

lemma distinct_remove_first:
  "distinct (map k xs) \<Longrightarrow> distinct (map k (remove_first P xs))"
proof (induction xs)
  case Nil
  then show ?case by simp
next
  case (Cons a xs)
  then show ?case using set_remove_first[of P xs] by (auto simp: image_iff)
qed

lemma unique_ids_empty: "unique_ids \<lparr>users = [], tasks = []\<rparr>"
  by (simp add: unique_ids_def)

lemma unique_ids_post_register:
  assumes "unique_ids d"
  shows "unique_ids (snd (post_register B w d errors un em pw))"
  using assms
  by (auto simp: post_register_def User_create_def pre_save_def unique_ids_def Let_def
           split: option.splits)

lemma unique_ids_put_profile:
  assumes "unique_ids d"
  shows "unique_ids (snd (put_profile d uid errors un em))"
proof (cases "find (\<lambda>x. user_id x = uid) (users d)")
  case None
  with assms show ?thesis by (simp add: put_profile_def)
next
  case (Some v)
  then have "user_id v = uid"
    by (auto simp: find_Some_iff)
  then have "user_id (profile_updates un em v) = user_id v"
    by (simp add: profile_updates_def Let_def)
  with Some have "map user_id (update_first (\<lambda>x. user_id x = uid)
                    (\<lambda>x. profile_updates un em v) (users d)) = map user_id (users d)"
    by (rule update_first_keeps)
  with assms Some show ?thesis
    by (simp add: put_profile_def unique_ids_def Let_def)
qed

lemma unique_ids_post_tasks:
  assumes "unique_ids d"
  shows "unique_ids (snd (post_tasks w d uid errors ttl desc st pr))"
  using assms
  by (auto simp: post_tasks_def Task_create_def unique_ids_def Let_def)

lemma unique_ids_put_tasks_id:
  assumes "unique_ids d"
  shows "unique_ids (snd (put_tasks_id w d uid tid errors u))"
proof -
  have "map task_id (update_first P (apply_updates n u) xs) = map task_id xs" for P n xs
    by (rule map_update_first) (simp add: apply_updates_def)
  with assms show ?thesis
    by (auto simp: put_tasks_id_def unique_ids_def split: option.splits)
qed

lemma unique_ids_delete_tasks_id:
  assumes "unique_ids d"
  shows "unique_ids (snd (delete_tasks_id d uid tid))"
  using assms
  by (auto simp: delete_tasks_id_def unique_ids_def distinct_remove_first split: option.splits)

end
